theory Spec2Isabelle
  imports Complex_Main "HOL-Library.Log_Nat"
begin

section \<open>The bisection application: embedding of \<open>appBiseccion.py\<close>\<close>

text \<open>
  The script reads a formula and five numbers from widgets, compiles the formula with
  SymPy (\<open>f_lambda\<close>), wraps it in the guarded evaluator \<open>f\<close>, checks the two end points
  and runs the bisection loop, collecting one row of the table per pass.

  The finite Python floats are modelled by \<open>real\<close>. The sums, differences and halvings
  of lines 120-121 are taken exact. The two products of the script (lines 92 and 151) are
  only compared with zero, and that comparison changes when the product underflows, so
  they are the correctly rounded binary64 product \<open>double_mul\<close>. The compiled evaluator is
  a parameter of the model; what it can hand back is described by \<open>pyval\<close> and \<open>pyexn\<close>.
  The value \<open>np.nan\<close> returned by \<open>f\<close> is \<open>None\<close>; \<open>np.isnan v\<close> is \<open>v = None\<close>.
  The messages written with \<open>st.error\<close>, \<open>st.success\<close> and \<open>st.warning\<close> are the
  constructors of \<open>outcome\<close>, carrying the numbers the message prints (before rounding
  to \<open>decimales\<close>, which only affects the display).
\<close>

subsection \<open>Values and exceptions of the compiled evaluator\<close>

text \<open>
  \<open>pyexn\<close>: the exceptions (all derived from \<open>Exception\<close>) that a formula compiled to the
  \<open>math\<close> module raises. \<open>pyval\<close>: the numbers it returns, a finite \<open>int\<close> or \<open>float\<close>
  (\<open>Real_val\<close>), a \<open>complex\<close>, \<open>nan\<close>, or \<open>inf\<close> with its sign.
\<close>

datatype pyexn = ZeroDivisionError | ValueError | OverflowError | TypeError

datatype pyval =
    Real_val real
  | Complex_val real real
  | NaN_val
  | Inf_val bool

type_synonym evaluator = "real \<Rightarrow> pyexn + pyval"

fun is_complex :: "pyval \<Rightarrow> bool" where
  "is_complex (Complex_val re im) = True"
| "is_complex v = False"

fun isnan :: "pyval \<Rightarrow> bool" where
  "isnan NaN_val = True"
| "isnan v = False"

fun isinf :: "pyval \<Rightarrow> bool" where
  "isinf (Inf_val positive) = True"
| "isinf v = False"

text \<open>
  Lines 74-81. \<open>f_body\<close> is the body of the \<open>try\<close>: it raises what \<open>f_lambda\<close> raises
  (\<open>Inl\<close>) or returns; \<open>f\<close> adds the handler \<open>except Exception: return np.nan\<close>. The
  result of \<open>f\<close> keeps the sum type, so that "does not raise" is a statement about \<open>f\<close>
  and not about its type. A value that passes the three tests of line 77 is a finite
  real; the last branch of the \<open>case\<close> only completes the pattern match.
\<close>

fun f_body :: "pyexn + pyval \<Rightarrow> pyexn + real option" where
  "f_body (Inl e) = Inl e"
| "f_body (Inr resultado) =
     (if is_complex resultado \<or> isnan resultado \<or> isinf resultado then Inr None
      else (case resultado of Real_val r \<Rightarrow> Inr (Some r) | other \<Rightarrow> Inr None))"

definition f :: "evaluator \<Rightarrow> real \<Rightarrow> pyexn + real option" where
  "f f_lambda x_val =
     (case f_body (f_lambda x_val) of
        Inl e \<Rightarrow> Inr None
      | Inr v \<Rightarrow> Inr v)"

subsection \<open>Script variables, table rows and messages\<close>

record row =
  col_n :: int
  col_a :: real
  col_b :: real
  col_c :: real
  col_x :: real
  col_fx :: real

text \<open>
  \<open>a_lim\<close> and \<open>b_lim\<close> are the script's \<open>a\<close> and \<open>b\<close> (the widgets "Limite inferior (a)"
  and "Limite superior (b)"); the other fields carry the source's names.
\<close>

record vars =
  a_lim :: real
  b_lim :: real
  tol :: real
  max_iter :: int
  iteraciones :: int
  rows :: "row list"
  a_iter :: real
  b_iter :: real

datatype reason = Endpoint_undefined | Same_sign

datatype outcome =
    is_ExactRoot: ExactRoot real int
  | is_ApproximateRoot: ApproximateRoot real real int
  | is_MaxIterationsReached: MaxIterationsReached int real
  | is_UndefinedEncountered: UndefinedEncountered real int
  | is_InvalidBracket: InvalidBracket reason
  | is_EvaluationFailure: EvaluationFailure pyexn

datatype step_result = Break outcome vars | Continue vars

subsection \<open>The product of two floats\<close>

text \<open>
  \<open>x * y\<close> on Python floats is the IEEE 754 binary64 product: the exact product rounded to
  the nearest double, ties to the even significand. \<open>spacing ax\<close> is the distance between
  neighbouring doubles at magnitude \<open>ax\<close>: \<open>2 ^ (e - 52)\<close> in the binade
  \<open>2 ^ e \<le> ax < 2 ^ (e + 1)\<close>, and \<open>2 ^ - 1074\<close> below \<open>2 ^ - 1022\<close> (subnormal range). A
  rounded magnitude of \<open>2 ^ 1024\<close> or more is an overflow: the float is an infinity, written
  here \<open>\<plusminus> 2 ^ 1024\<close>, a number no finite double reaches; the script only compares it
  with zero. A product that rounds to zero is \<open>0\<close> (the floats \<open>0.0\<close> and \<open>-0.0\<close> compare
  alike).
\<close>

definition round_half_even :: "real \<Rightarrow> int" where
  "round_half_even y =
     (let n = \<lfloor>y\<rfloor>; r = y - of_int n
      in if r < 1 / 2 then n else if 1 / 2 < r then n + 1 else if even n then n else n + 1)"

definition spacing :: "real \<Rightarrow> real" where
  "spacing ax =
     (if ax < 1 / 2 ^ 1022 then 1 / 2 ^ 1074
      else if ax < 1 then 1 / 2 ^ (ceillog2 (nat \<lceil>1 / ax\<rceil>) + 52)
      else 2 ^ (floorlog 2 (nat \<lfloor>ax\<rfloor>) - 1) / 2 ^ 52)"

definition double_round :: "real \<Rightarrow> real" where
  "double_round x =
     (let ax = \<bar>x\<bar>;
          m = of_int (round_half_even (ax / spacing ax)) * spacing ax
      in if 2 ^ 1024 \<le> m then sgn x * 2 ^ 1024 else sgn x * m)"

definition double_mul :: "real \<Rightarrow> real \<Rightarrow> real" where
  "double_mul x y = double_round (x * y)"

subsection \<open>One pass of the loop (lines 118-154)\<close>

text \<open>
  \<open>select_bracket\<close> is the \<open>if\<close> of lines 151-154, with \<open>f(a_iter)\<close> evaluated again; a
  comparison with NaN is false in Python, so an undefined \<open>f(a_iter)\<close> takes the \<open>else\<close>
  branch. \<open>loop_body\<close> is one pass: \<open>Break\<close> for each \<open>break\<close> (and for an exception
  reaching the handler of line 165), \<open>Continue\<close> when the loop goes round again.
\<close>

definition select_bracket :: "evaluator \<Rightarrow> vars \<Rightarrow> real \<Rightarrow> real \<Rightarrow> step_result" where
  "select_bracket f_lambda s x_new f_x_new =
     (case f f_lambda (a_iter s) of
        Inl e \<Rightarrow> Break (EvaluationFailure e) s
      | Inr None \<Rightarrow> Continue (s\<lparr>a_iter := x_new\<rparr>)
      | Inr (Some f_a) \<Rightarrow>
          (if double_mul f_a f_x_new < 0 then Continue (s\<lparr>b_iter := x_new\<rparr>)
           else Continue (s\<lparr>a_iter := x_new\<rparr>)))"

definition loop_body :: "evaluator \<Rightarrow> vars \<Rightarrow> step_result" where
  "loop_body f_lambda s0 =
     (let s = s0\<lparr>iteraciones := iteraciones s0 + 1\<rparr>;
          c = (b_iter s - a_iter s) / 2;
          x_new = a_iter s + c
      in case f f_lambda x_new of
           Inl e \<Rightarrow> Break (EvaluationFailure e) s
         | Inr None \<Rightarrow> Break (UndefinedEncountered x_new (iteraciones s)) s
         | Inr (Some f_x_new) \<Rightarrow>
             (let row_data = \<lparr>col_n = iteraciones s, col_a = a_iter s, col_b = b_iter s,
                              col_c = c, col_x = x_new, col_fx = f_x_new\<rparr>;
                  s = s\<lparr>rows := rows s @ [row_data]\<rparr>
              in if f_x_new = 0 then Break (ExactRoot x_new (iteraciones s)) s
                 else if c < tol s then Break (ApproximateRoot x_new (tol s) (iteraciones s)) s
                 else if iteraciones s \<ge> max_iter s then Break (MaxIterationsReached (max_iter s) x_new) s
                 else select_bracket f_lambda s x_new f_x_new))"

subsection \<open>The loop \<open>while True\<close> (lines 117-154)\<close>

function bisect_loop :: "evaluator \<Rightarrow> vars \<Rightarrow> outcome \<times> vars" where
  "bisect_loop f_lambda s =
     (case loop_body f_lambda s of
        Break out s' \<Rightarrow> (out, s')
      | Continue s' \<Rightarrow> bisect_loop f_lambda s')"
  by pat_completeness auto
termination
proof (relation "measure (\<lambda>(fl, s). nat (max_iter s - iteraciones s))")
  show "wf (measure (\<lambda>(fl, s). nat (max_iter s - iteraciones s)))"
    by simp
next
  fix f_lambda s s'
  assume "loop_body f_lambda s = Continue s'"
  then have "max_iter s' = max_iter s \<and> iteraciones s' = iteraciones s + 1
               \<and> iteraciones s + 1 < max_iter s"
    by (auto simp: loop_body_def select_bracket_def Let_def
             split: sum.splits option.splits if_splits)
  then show "((f_lambda, s'), (f_lambda, s)) \<in> measure (\<lambda>(fl, s). nat (max_iter s - iteraciones s))"
    by simp
qed

declare bisect_loop.simps [simp del]

subsection \<open>The whole run after "Calcular Raiz" (lines 84-163)\<close>

text \<open>
  \<open>validate\<close> is the block of lines 84-102: \<open>None\<close> when the script goes on to the loop,
  otherwise the message after which \<open>st.stop()\<close> ends the script. The test
  \<open>np.isnan(f_a) or np.isnan(f_b)\<close> is the pattern match on the two options.
\<close>

definition validate :: "evaluator \<Rightarrow> real \<Rightarrow> real \<Rightarrow> outcome option" where
  "validate f_lambda a b =
     (case f f_lambda a of
        Inl e \<Rightarrow> Some (EvaluationFailure e)
      | Inr f_a \<Rightarrow>
          (case f f_lambda b of
             Inl e \<Rightarrow> Some (EvaluationFailure e)
           | Inr f_b \<Rightarrow>
               (case (f_a, f_b) of
                  (Some va, Some vb) \<Rightarrow>
                    (if double_mul va vb > 0 then Some (InvalidBracket Same_sign) else None)
                | other \<Rightarrow> Some (InvalidBracket Endpoint_undefined))))"

definition init_vars :: "real \<Rightarrow> real \<Rightarrow> real \<Rightarrow> int \<Rightarrow> vars" where
  "init_vars a b tolerance maximo =
     \<lparr>a_lim = a, b_lim = b, tol = tolerance, max_iter = maximo,
      iteraciones = 0, rows = [], a_iter = a, b_iter = b\<rparr>"

text \<open>
  The table of lines 157-163 is drawn from \<open>rows\<close> after the loop; a run stopped by
  \<open>st.stop()\<close>, or one that lands in the handler of line 165, draws no table. \<open>run\<close>
  returns the message, the variables at the end and the rows drawn. A run stopped by
  validation ends before lines 106-111: its loop variables are reported with the values
  these lines would give them.
\<close>

fun shown_rows :: "outcome \<Rightarrow> vars \<Rightarrow> row list" where
  "shown_rows (EvaluationFailure e) s = []"
| "shown_rows out s = rows s"

definition run :: "evaluator \<Rightarrow> real \<Rightarrow> real \<Rightarrow> real \<Rightarrow> int \<Rightarrow> outcome \<times> vars \<times> row list" where
  "run f_lambda a b tolerance maximo =
     (case validate f_lambda a b of
        Some out \<Rightarrow> (out, init_vars a b tolerance maximo, [])
      | None \<Rightarrow>
          (case bisect_loop f_lambda (init_vars a b tolerance maximo) of
             (out, s) \<Rightarrow> (out, s, shown_rows out s)))"

subsection \<open>Compiled evaluators of some formulas\<close>

text \<open>
  What \<open>sp.lambdify(x_sym, f_expr, "math")\<close> computes for the formula texts \<open>x\<close>, \<open>x - 1\<close>,
  \<open>x**2 + 1\<close>, \<open>1/x\<close> (which raises \<open>ZeroDivisionError\<close> at 0) and \<open>x/2**600\<close> (a division
  by a power of two, exact on the floats used below).
\<close>

definition f_lambda_x_div_2_600 :: evaluator where
  "f_lambda_x_div_2_600 x_val = Inr (Real_val (x_val / 2 ^ 600))"

definition f_lambda_x :: evaluator where
  "f_lambda_x x_val = Inr (Real_val x_val)"

definition f_lambda_x_minus_1 :: evaluator where
  "f_lambda_x_minus_1 x_val = Inr (Real_val (x_val - 1))"

definition f_lambda_x2_plus_1 :: evaluator where
  "f_lambda_x2_plus_1 x_val = Inr (Real_val (x_val ^ 2 + 1))"

definition f_lambda_inv :: evaluator where
  "f_lambda_inv x_val = (if x_val = 0 then Inl ZeroDivisionError else Inr (Real_val (1 / x_val)))"

subsection \<open>Notation for one pass\<close>

abbreviation half_width :: "vars \<Rightarrow> real" where
  "half_width t \<equiv> (b_iter t - a_iter t) / 2"

abbreviation midpoint :: "vars \<Rightarrow> real" where
  "midpoint t \<equiv> a_iter t + (b_iter t - a_iter t) / 2"

abbreviation new_row :: "vars \<Rightarrow> real \<Rightarrow> row" where
  "new_row t v \<equiv> \<lparr>col_n = iteraciones t + 1, col_a = a_iter t, col_b = b_iter t,
                   col_c = half_width t, col_x = midpoint t, col_fx = v\<rparr>"

section \<open>General facts about the loop\<close>

text \<open>The products met in the runs evaluated below.\<close>

lemma floorlog_values:
  "floorlog 2 (Suc 0) = 1" "floorlog 2 2 = 2" "floorlog 2 4 = 3" "floorlog 2 6 = 3" "floorlog 2 10 = 4"
  by (simp_all add: compute_floorlog)

lemmas double_mul_eval = double_mul_def double_round_def round_half_even_def spacing_def
  floorlog_values

lemma double_mul_values [simp]:
  "double_mul 0 y = 0"
  "double_mul (- 1) 1 = - 1"
  "double_mul 2 (- 1) = - 2"
  "double_mul 2 2 = 4"
  "double_mul 2 3 = 6"
  "double_mul 3 (7 / 2) = 21 / 2"
  by (simp_all add: double_mul_eval Let_def)

lemma double_mul_underflow:
  "double_mul (1 / 2 ^ 600) (2 / 2 ^ 600) = 0"
  "double_mul (- 1 / 2 ^ 600) (1 / 2 ^ 601) = 0"
  by (simp_all add: double_mul_eval Let_def)

lemmas run_eval = run_def validate_def f_def init_vars_def loop_body_def select_bracket_def Let_def
  bisect_loop.simps f_lambda_x_def f_lambda_x_minus_1_def f_lambda_x2_plus_1_def f_lambda_inv_def
  f_lambda_x_div_2_600_def

lemma f_not_Inl: "f fl x \<noteq> Inl e"
  by (simp add: f_def split: sum.split)

text \<open>
  The proof rule for \<open>while True\<close>: a property that holds when the loop is entered and is
  kept by every pass that goes round again holds in the state from which the last pass,
  the one that breaks, is run.
\<close>

lemma bisect_loop_invariant:
  assumes "bisect_loop fl s = (out, s')"
    and "I s"
    and "\<And>t t'. I t \<Longrightarrow> loop_body fl t = Continue t' \<Longrightarrow> I t'"
  shows "\<exists>t. I t \<and> loop_body fl t = Break out s'"
  using assms
proof (induction fl s rule: bisect_loop.induct)
  case (1 fl s)
  show ?case
  proof (cases "loop_body fl s")
    case (Break o1 s1)
    with "1.prems"(1,2) show ?thesis
      by (auto simp: bisect_loop.simps [of fl s])
  next
    case (Continue s1)
    with "1.prems"(1) have "bisect_loop fl s1 = (out, s')"
      by (simp add: bisect_loop.simps [of fl s])
    moreover have "I s1" using "1.prems"(3) [OF "1.prems"(2) Continue] .
    ultimately show ?thesis using "1.IH" [OF Continue] "1.prems"(3) by blast
  qed
qed

lemma loop_body_frame:
  assumes "loop_body fl t = Continue t'"
  shows "a_lim t' = a_lim t \<and> b_lim t' = b_lim t \<and> tol t' = tol t \<and> max_iter t' = max_iter t
    \<and> iteraciones t' = iteraciones t + 1 \<and> iteraciones t + 1 < max_iter t"
  using assms
  by (auto simp: loop_body_def select_bracket_def Let_def split: sum.splits option.splits if_splits)

lemma loop_body_Break_frame:
  assumes "loop_body fl t = Break out t'"
  shows "a_lim t' = a_lim t \<and> b_lim t' = b_lim t \<and> tol t' = tol t \<and> max_iter t' = max_iter t
    \<and> iteraciones t' = iteraciones t + 1"
  using assms
  by (auto simp: loop_body_def select_bracket_def Let_def f_not_Inl split: sum.splits option.splits if_splits)

lemma loop_body_Continue_step:
  assumes "loop_body fl t = Continue t'"
  shows "\<exists>v. f fl (midpoint t) = Inr (Some v) \<and> v \<noteq> 0 \<and> \<not> half_width t < tol t
           \<and> rows t' = rows t @ [new_row t v]
           \<and> (a_iter t' = a_iter t \<and> b_iter t' = midpoint t
              \<or> a_iter t' = midpoint t \<and> b_iter t' = b_iter t)"
  using assms
  by (auto simp: loop_body_def select_bracket_def Let_def split: sum.splits option.splits if_splits)

lemma loop_body_Break_step:
  assumes "loop_body fl t = Break out t'"
  shows "(out = UndefinedEncountered (midpoint t) (iteraciones t + 1)
            \<and> f fl (midpoint t) = Inr None \<and> rows t' = rows t)
         \<or> (\<exists>v. f fl (midpoint t) = Inr (Some v) \<and> rows t' = rows t @ [new_row t v]
               \<and> (out = ExactRoot (midpoint t) (iteraciones t + 1) \<and> v = 0
                  \<or> out = ApproximateRoot (midpoint t) (tol t) (iteraciones t + 1)
                      \<and> half_width t < tol t
                  \<or> out = MaxIterationsReached (max_iter t) (midpoint t)
                      \<and> max_iter t \<le> iteraciones t + 1))"
  using assms
  by (auto simp: loop_body_def select_bracket_def Let_def f_not_Inl
      split: sum.splits option.splits if_splits)

section \<open>The properties of the specification\<close>

subsection \<open>Termination bound\<close>

text \<open>
  Claim C1. \<open>bisect_loop\<close> is a total function (its termination is proved above with the
  measure \<open>max_iter - iteraciones\<close>), so every run returns. For a run with \<open>tol > 0\<close> and
  \<open>max_iter \<ge> 1\<close> that passes validation, the counter \<open>iteraciones\<close>, which starts at 0 and
  is incremented once per pass, is between 1 and \<open>max_iter\<close> when the loop is left; it only
  grows, so it never exceeded \<open>max_iter\<close> before.
\<close>

theorem terminates_within_max_iter:
  assumes "0 < tolerance" and "1 \<le> maximo" and "validate f_lambda a b = None"
  shows "\<exists>out s rs. run f_lambda a b tolerance maximo = (out, s, rs)
           \<and> 1 \<le> iteraciones s \<and> iteraciones s \<le> maximo"
proof -
  obtain out s where res: "bisect_loop f_lambda (init_vars a b tolerance maximo) = (out, s)"
    by (cases "bisect_loop f_lambda (init_vars a b tolerance maximo)")
  have "\<exists>t. (max_iter t = maximo \<and> 0 \<le> iteraciones t \<and> iteraciones t < maximo)
            \<and> loop_body f_lambda t = Break out s"
    by (rule bisect_loop_invariant [OF res])
       (use assms(2) in \<open>auto simp: init_vars_def dest: loop_body_frame\<close>)
  then have "1 \<le> iteraciones s \<and> iteraciones s \<le> maximo"
    by (auto dest: loop_body_Break_frame)
  with assms(3) res show ?thesis by (simp add: run_def)
qed

theorem terminates_within_max_iter_witness:
  "(0::real) < 1 / 2 \<and> (1::int) \<le> 3 \<and> validate f_lambda_x 0 4 = None
   \<and> (\<exists>out s rs. run f_lambda_x 0 4 (1 / 2) 3 = (out, s, rs)
           \<and> 1 \<le> iteraciones s \<and> iteraciones s \<le> 3)"
proof -
  have t: "(0::real) < 1 / 2" by simp
  have m: "(1::int) \<le> 3" by simp
  have v: "validate f_lambda_x 0 4 = None"
    by (simp add: validate_def f_def f_lambda_x_def)
  from terminates_within_max_iter [OF t m v] t m v show ?thesis by blast
qed

subsection \<open>The half width is halved by every pass\<close>

lemma halving_invariant:
  assumes "bisect_loop fl (init_vars a b tolerance maximo) = (out, s)"
  shows "\<forall>i < length (rows s). col_n (rows s ! i) = int i + 1
            \<and> col_c (rows s ! i) = (b - a) / 2 ^ (i + 1)"
proof -
  let ?I = "\<lambda>t. 0 \<le> iteraciones t \<and> length (rows t) = nat (iteraciones t)
      \<and> b_iter t - a_iter t = (b - a) / 2 ^ nat (iteraciones t)
      \<and> (\<forall>i < length (rows t). col_n (rows t ! i) = int i + 1
            \<and> col_c (rows t ! i) = (b - a) / 2 ^ (i + 1))"
  have pres: "?I t'" if inv: "?I t" and st: "loop_body fl t = Continue t'" for t t'
  proof -
    from loop_body_Continue_step [OF st] obtain v where
      r: "rows t' = rows t @ [new_row t v]" and
      br: "a_iter t' = a_iter t \<and> b_iter t' = midpoint t
              \<or> a_iter t' = midpoint t \<and> b_iter t' = b_iter t"
      by blast
    from loop_body_frame [OF st] have it: "iteraciones t' = iteraciones t + 1" by simp
    from inv it have n: "nat (iteraciones t') = Suc (nat (iteraciones t))" by linarith
    from br have "b_iter t' - a_iter t' = (b_iter t - a_iter t) / 2"
      by (auto simp: field_simps)
    with inv n have w: "b_iter t' - a_iter t' = (b - a) / 2 ^ nat (iteraciones t')"
      by simp
    have "\<forall>i < length (rows t'). col_n (rows t' ! i) = int i + 1
            \<and> col_c (rows t' ! i) = (b - a) / 2 ^ (i + 1)"
      using inv r by (auto simp: nth_append less_Suc_eq)
    with inv it n r w show ?thesis by simp
  qed
  have "\<exists>t. ?I t \<and> loop_body fl t = Break out s"
    by (rule bisect_loop_invariant [OF assms]) (simp add: init_vars_def, rule pres)
  then obtain t where inv: "?I t" and st: "loop_body fl t = Break out s" by blast
  from loop_body_Break_step [OF st]
  have "rows s = rows t \<or> (\<exists>v. rows s = rows t @ [new_row t v])" by blast
  then show ?thesis
    using inv by (auto simp: nth_append less_Suc_eq)
qed

text \<open>
  Claim C2. In exact arithmetic, the row of the table written by pass \<open>n\<close> (the row at
  position \<open>n - 1\<close>, whose first column is \<open>n\<close>) has the half width
  \<open>c = (b - a) / 2 ^ n\<close>, where \<open>a\<close> and \<open>b\<close> are the bounds the run started from.
\<close>

theorem half_width_halves:
  assumes "run f_lambda a b tolerance maximo = (out, s, rs)" and "i < length rs"
  shows "col_n (rs ! i) = int i + 1 \<and> col_c (rs ! i) = (b - a) / 2 ^ (i + 1)"
proof (cases "validate f_lambda a b")
  case (Some o1)
  with assms show ?thesis by (simp add: run_def)
next
  case None
  obtain o2 s2 where res: "bisect_loop f_lambda (init_vars a b tolerance maximo) = (o2, s2)"
    by (cases "bisect_loop f_lambda (init_vars a b tolerance maximo)")
  with None assms(1) have "rs = shown_rows o2 s2" by (auto simp: run_def)
  then have "rs = [] \<or> rs = rows s2" by (cases o2) simp_all
  with assms(2) halving_invariant [OF res] show ?thesis by auto
qed

theorem half_width_halves_witness:
  "run f_lambda_x 0 4 (1 / 2) 2 =
     (MaxIterationsReached 2 3,
      \<lparr>a_lim = 0, b_lim = 4, tol = 1 / 2, max_iter = 2, iteraciones = 2,
       rows = [\<lparr>col_n = 1, col_a = 0, col_b = 4, col_c = 2, col_x = 2, col_fx = 2\<rparr>,
               \<lparr>col_n = 2, col_a = 2, col_b = 4, col_c = 1, col_x = 3, col_fx = 3\<rparr>],
       a_iter = 2, b_iter = 4\<rparr>,
      [\<lparr>col_n = 1, col_a = 0, col_b = 4, col_c = 2, col_x = 2, col_fx = 2\<rparr>,
       \<lparr>col_n = 2, col_a = 2, col_b = 4, col_c = 1, col_x = 3, col_fx = 3\<rparr>])
   \<and> (1::nat) < length [\<lparr>col_n = 1, col_a = 0, col_b = 4, col_c = 2, col_x = 2, col_fx = 2\<rparr>,
       \<lparr>col_n = 2, col_a = 2, col_b = 4, col_c = 1, col_x = 3, col_fx = (3::real)\<rparr>]
   \<and> col_n ([\<lparr>col_n = 1, col_a = 0, col_b = 4, col_c = 2, col_x = 2, col_fx = 2\<rparr>,
       \<lparr>col_n = 2, col_a = 2, col_b = 4, col_c = 1, col_x = 3, col_fx = (3::real)\<rparr>] ! 1) = int 1 + 1
   \<and> col_c ([\<lparr>col_n = 1, col_a = 0, col_b = 4, col_c = 2, col_x = 2, col_fx = 2\<rparr>,
       \<lparr>col_n = 2, col_a = 2, col_b = 4, col_c = 1, col_x = 3, col_fx = (3::real)\<rparr>] ! 1)
       = (4 - 0) / 2 ^ (1 + 1)"
proof -
  have r: "run f_lambda_x 0 4 (1 / 2) 2 =
     (MaxIterationsReached 2 3,
      \<lparr>a_lim = 0, b_lim = 4, tol = 1 / 2, max_iter = 2, iteraciones = 2,
       rows = [\<lparr>col_n = 1, col_a = 0, col_b = 4, col_c = 2, col_x = 2, col_fx = 2\<rparr>,
               \<lparr>col_n = 2, col_a = 2, col_b = 4, col_c = 1, col_x = 3, col_fx = 3\<rparr>],
       a_iter = 2, b_iter = 4\<rparr>,
      [\<lparr>col_n = 1, col_a = 0, col_b = 4, col_c = 2, col_x = 2, col_fx = 2\<rparr>,
       \<lparr>col_n = 2, col_a = 2, col_b = 4, col_c = 1, col_x = 3, col_fx = 3\<rparr>])"
    by (simp add: run_eval)
  have l: "(1::nat) < length [\<lparr>col_n = 1, col_a = 0, col_b = 4, col_c = 2, col_x = 2, col_fx = 2\<rparr>,
       \<lparr>col_n = 2, col_a = 2, col_b = 4, col_c = 1, col_x = 3, col_fx = (3::real)\<rparr>]"
    by simp
  from half_width_halves [OF r l] r l show ?thesis by blast
qed

subsection \<open>Bracket validation\<close>

text \<open>
  What the test of line 92 does: when both end values are defined and their float product
  is positive, the run ends with \<open>InvalidBracket Same_sign\<close> before the loop, with the
  variables of the start and no row.
\<close>

lemma positive_product_is_InvalidBracket:
  assumes "f f_lambda a = Inr (Some va)" and "f f_lambda b = Inr (Some vb)"
    and "double_mul va vb > 0"
  shows "run f_lambda a b tolerance maximo
           = (InvalidBracket Same_sign, init_vars a b tolerance maximo, [])"
  using assms by (simp add: run_def validate_def)

text \<open>
  Claim C3 fails on the code for end values of the same sign whose float product underflows.
  For \<open>f(x) = x/2**600\<close> on \<open>[1, 2]\<close> both end values are defined and positive, so
  \<open>f(a) * f(b) > 0\<close>; the float product is \<open>0.0\<close>, the test \<open>f_a * f_b > 0\<close> is false, the
  script reports that the end values have opposite signs and runs the loop, which writes
  a row (here with \<open>tol = 0.01\<close> and \<open>max_iter = 1\<close>).
\<close>

theorem same_sign_underflow_passes_validation:
  "f f_lambda_x_div_2_600 1 = Inr (Some (1 / 2 ^ 600))
   \<and> f f_lambda_x_div_2_600 2 = Inr (Some (2 / 2 ^ 600))
   \<and> (1 / 2 ^ 600 :: real) * (2 / 2 ^ 600) > 0
   \<and> double_mul (1 / 2 ^ 600) (2 / 2 ^ 600) = 0
   \<and> validate f_lambda_x_div_2_600 1 2 = None
   \<and> run f_lambda_x_div_2_600 1 2 (1 / 100) 1 =
       (MaxIterationsReached 1 (3 / 2),
        \<lparr>a_lim = 1, b_lim = 2, tol = 1 / 100, max_iter = 1, iteraciones = 1,
         rows = [\<lparr>col_n = 1, col_a = 1, col_b = 2, col_c = 1 / 2, col_x = 3 / 2,
                  col_fx = 3 / 2 ^ 601\<rparr>],
         a_iter = 1, b_iter = 2\<rparr>,
        [\<lparr>col_n = 1, col_a = 1, col_b = 2, col_c = 1 / 2, col_x = 3 / 2,
          col_fx = 3 / 2 ^ 601\<rparr>])"
  by (simp add: run_eval double_mul_eval)

subsection \<open>An undefined midpoint leaves no row\<close>

lemma rows_numbered:
  assumes "bisect_loop fl (init_vars a b tolerance maximo) = (out, s)"
  shows "\<exists>t. (0 \<le> iteraciones t \<and> map col_n (rows t) = [1..iteraciones t])
            \<and> loop_body fl t = Break out s"
proof (rule bisect_loop_invariant [OF assms])
  show "0 \<le> iteraciones (init_vars a b tolerance maximo)
    \<and> map col_n (rows (init_vars a b tolerance maximo)) = [1..iteraciones (init_vars a b tolerance maximo)]"
    by (simp add: init_vars_def)
next
  fix t t'
  assume inv: "0 \<le> iteraciones t \<and> map col_n (rows t) = [1..iteraciones t]"
    and st: "loop_body fl t = Continue t'"
  from loop_body_Continue_step [OF st] obtain v where r: "rows t' = rows t @ [new_row t v]"
    by blast
  from loop_body_frame [OF st] have it: "iteraciones t' = iteraciones t + 1" by simp
  from inv have "[1..iteraciones t + 1] = [1..iteraciones t] @ [iteraciones t + 1]"
    by (simp add: upto_rec2)
  with inv r it show "0 \<le> iteraciones t' \<and> map col_n (rows t') = [1..iteraciones t']"
    by simp
qed

text \<open>
  Claim C4. A pass whose midpoint value is undefined breaks with \<open>UndefinedEncountered\<close>
  and leaves \<open>rows\<close> as it found it (second conjunct). So a run that ends with
  \<open>UndefinedEncountered x n\<close> shows exactly the rows numbered \<open>1 .. n - 1\<close> (none when
  \<open>n = 1\<close>), whereas a run that ends with \<open>ExactRoot\<close>, \<open>ApproximateRoot\<close> or
  \<open>MaxIterationsReached\<close> after \<open>n\<close> passes shows the rows \<open>1 .. n\<close>, the last one being
  the row of the midpoint that stopped it.
\<close>

theorem undefined_midpoint_appends_no_row:
  assumes "run f_lambda a b tolerance maximo = (out, s, rs)"
  shows "(case out of
            UndefinedEncountered x n \<Rightarrow>
              f f_lambda x = Inr None \<and> 1 \<le> n \<and> n = iteraciones s \<and> map col_n rs = [1..n - 1]
          | ExactRoot x n \<Rightarrow>
              1 \<le> n \<and> n = iteraciones s \<and> map col_n rs = [1..n] \<and> col_x (last rs) = x
          | ApproximateRoot x t n \<Rightarrow>
              1 \<le> n \<and> n = iteraciones s \<and> map col_n rs = [1..n] \<and> col_x (last rs) = x
          | MaxIterationsReached m x \<Rightarrow>
              1 \<le> iteraciones s \<and> map col_n rs = [1..iteraciones s] \<and> col_x (last rs) = x
          | InvalidBracket r \<Rightarrow> rs = []
          | EvaluationFailure e \<Rightarrow> rs = [])
     \<and> (f f_lambda (a_iter t + (b_iter t - a_iter t) / 2) = Inr None \<longrightarrow>
          loop_body f_lambda t =
            Break (UndefinedEncountered (a_iter t + (b_iter t - a_iter t) / 2) (iteraciones t + 1))
                  (t\<lparr>iteraciones := iteraciones t + 1\<rparr>))"
    (is "?trace \<and> ?pass")
proof
  show ?pass by (simp add: loop_body_def Let_def)
next
  show ?trace
  proof (cases "validate f_lambda a b")
    case (Some o1)
    then have "o1 = InvalidBracket Same_sign \<or> o1 = InvalidBracket Endpoint_undefined"
      by (auto simp: validate_def f_not_Inl split: sum.splits option.splits if_splits)
    with Some assms show ?thesis by (auto simp: run_def)
  next
    case None
    obtain o2 s2 where res: "bisect_loop f_lambda (init_vars a b tolerance maximo) = (o2, s2)"
      by (cases "bisect_loop f_lambda (init_vars a b tolerance maximo)")
    with None assms have eq: "out = o2" "s = s2" "rs = shown_rows o2 s2"
      by (auto simp: run_def)
    from rows_numbered [OF res] obtain t where
      inv: "0 \<le> iteraciones t" "map col_n (rows t) = [1..iteraciones t]"
      and st: "loop_body f_lambda t = Break o2 s2" by blast
    from loop_body_Break_frame [OF st] have it: "iteraciones s2 = iteraciones t + 1" by simp
    from inv have up: "[1..iteraciones t + 1] = [1..iteraciones t] @ [iteraciones t + 1]"
      by (simp add: upto_rec2)
    from loop_body_Break_step [OF st] show ?thesis
      using inv it up eq by auto
  qed
qed

theorem undefined_midpoint_appends_no_row_witness:
  "run f_lambda_inv (- 1) 1 (1 / 100) 100 =
     (UndefinedEncountered 0 1,
      \<lparr>a_lim = - 1, b_lim = 1, tol = 1 / 100, max_iter = 100, iteraciones = 1,
       rows = [], a_iter = - 1, b_iter = 1\<rparr>, [])
   \<and> f f_lambda_inv 0 = Inr None
   \<and> f f_lambda_inv (a_iter (init_vars (- 1) 1 (1 / 100) 100)
         + (b_iter (init_vars (- 1) 1 (1 / 100) 100) - a_iter (init_vars (- 1) 1 (1 / 100) 100)) / 2)
       = Inr None
   \<and> loop_body f_lambda_inv (init_vars (- 1) 1 (1 / 100) 100) =
       Break (UndefinedEncountered 0 1)
         \<lparr>a_lim = - 1, b_lim = 1, tol = 1 / 100, max_iter = 100, iteraciones = 1,
          rows = [], a_iter = - 1, b_iter = 1\<rparr>"
proof -
  have r: "run f_lambda_inv (- 1) 1 (1 / 100) 100 =
     (UndefinedEncountered 0 1,
      \<lparr>a_lim = - 1, b_lim = 1, tol = 1 / 100, max_iter = 100, iteraciones = 1,
       rows = [], a_iter = - 1, b_iter = 1\<rparr>, [])"
    by (simp add: run_eval)
  have u: "f f_lambda_inv (a_iter (init_vars (- 1) 1 (1 / 100) 100)
         + (b_iter (init_vars (- 1) 1 (1 / 100) 100) - a_iter (init_vars (- 1) 1 (1 / 100) 100)) / 2)
       = Inr None"
    by (simp add: f_def f_lambda_inv_def init_vars_def)
  from undefined_midpoint_appends_no_row [OF r, of "init_vars (- 1) 1 (1 / 100) 100"] r u
  show ?thesis by (simp add: init_vars_def)
qed

subsection \<open>The guarded evaluator\<close>

text \<open>
  Claim C5. For every input the guarded evaluator \<open>f\<close> returns normally (its result is an
  \<open>Inr\<close>, never a raised exception): the sentinel \<open>None\<close> when the compiled evaluator
  raises, or returns a complex number, NaN or an infinity, and the finite real result
  otherwise.
\<close>

theorem f_never_raises:
  "f f_lambda x_val =
     Inr (case f_lambda x_val of
            Inl e \<Rightarrow> None
          | Inr (Real_val r) \<Rightarrow> Some r
          | Inr (Complex_val re im) \<Rightarrow> None
          | Inr NaN_val \<Rightarrow> None
          | Inr (Inf_val positive) \<Rightarrow> None)"
  by (simp add: f_def split: sum.split pyval.split)

subsection \<open>Choice of the next bracket\<close>

text \<open>
  What lines 151-154 do in a pass that goes round again, with \<open>f_x_new\<close> the midpoint value
  and \<open>f_a\<close> the value of \<open>f\<close> recomputed at \<open>a_iter\<close>: if the float product of the two is
  negative then \<open>b_iter\<close> becomes the midpoint and \<open>a_iter\<close> stays; otherwise, a zero
  product included, \<open>a_iter\<close> becomes the midpoint and \<open>b_iter\<close> stays.
\<close>

lemma selection_by_float_product:
  assumes "loop_body f_lambda s = Continue s'"
    and "f f_lambda (a_iter s + (b_iter s - a_iter s) / 2) = Inr (Some f_x_new)"
    and "f f_lambda (a_iter s) = Inr (Some f_a)"
  shows "(if double_mul f_a f_x_new < 0
          then a_iter s' = a_iter s \<and> b_iter s' = a_iter s + (b_iter s - a_iter s) / 2
          else a_iter s' = a_iter s + (b_iter s - a_iter s) / 2 \<and> b_iter s' = b_iter s)"
  using assms
  by (auto simp: loop_body_def select_bracket_def Let_def split: if_splits)

text \<open>
  Claim C6 fails on the code when the product of a negative and a positive value
  underflows. For \<open>f(x) = x/2**600\<close> on \<open>[-1, 2]\<close> validation succeeds; in the first pass
  \<open>f(a_iter) = -1/2^600\<close> and \<open>f_x_new = 1/2^601\<close>, whose product is strictly negative; the
  float product is \<open>-0.0\<close>, the test \<open>< 0\<close> is false, and \<open>a_iter\<close>, not \<open>b_iter\<close>, becomes the
  midpoint 1/2. The bracket \<open>[1/2, 2]\<close> no longer holds the root 0, and with \<open>tol = 0.5\<close>
  the run reports 13/8 as an approximate root.
\<close>

theorem opposite_sign_underflow_moves_left_end:
  "validate f_lambda_x_div_2_600 (- 1) 2 = None
   \<and> f f_lambda_x_div_2_600 (- 1) = Inr (Some (- 1 / 2 ^ 600))
   \<and> f f_lambda_x_div_2_600 (1 / 2) = Inr (Some (1 / 2 ^ 601))
   \<and> (- 1 / 2 ^ 600 :: real) * (1 / 2 ^ 601) < 0
   \<and> double_mul (- 1 / 2 ^ 600) (1 / 2 ^ 601) = 0
   \<and> loop_body f_lambda_x_div_2_600 (init_vars (- 1) 2 (1 / 2) 100)
       = Continue \<lparr>a_lim = - 1, b_lim = 2, tol = 1 / 2, max_iter = 100, iteraciones = 1,
           rows = [\<lparr>col_n = 1, col_a = - 1, col_b = 2, col_c = 3 / 2, col_x = 1 / 2,
                    col_fx = 1 / 2 ^ 601\<rparr>],
           a_iter = 1 / 2, b_iter = 2\<rparr>
   \<and> fst (run f_lambda_x_div_2_600 (- 1) 2 (1 / 2) 100) = ApproximateRoot (13 / 8) (1 / 2) 3"
  by (simp add: run_eval double_mul_eval)

subsection \<open>Scenario D: \<open>f(x) = x - 1\<close> on \<open>[0, 2]\<close>\<close>

text \<open>
  Claim C7, as stated, fails: the run with \<open>f(x) = x - 1\<close>, \<open>a = 0\<close>, \<open>b = 2\<close>,
  \<open>tol = 1e-9\<close> and \<open>max_iter = 2\<close> does not end with \<open>MaxIterationsReached\<close>, and it does
  not make 2 passes.
\<close>

theorem scenario_D_not_max_iterations:
  "\<not> is_MaxIterationsReached (fst (run f_lambda_x_minus_1 0 2 (1 / 10 ^ 9) 2))
   \<and> iteraciones (fst (snd (run f_lambda_x_minus_1 0 2 (1 / 10 ^ 9) 2))) \<noteq> 2"
  by (simp add: run_eval)

text \<open>
  Claim C7, amended. The first midpoint is 1 and \<open>f(1) = 0\<close>, so the test of line 134 stops
  the run in its first pass: the outcome is \<open>ExactRoot 1\<close> after exactly 1 pass, with the
  single row \<open>(1, 0, 2, 1, 1, 0)\<close>.
\<close>

theorem scenario_D_exact_root:
  "run f_lambda_x_minus_1 0 2 (1 / 10 ^ 9) 2 =
     (ExactRoot 1 1,
      \<lparr>a_lim = 0, b_lim = 2, tol = 1 / 10 ^ 9, max_iter = 2, iteraciones = 1,
       rows = [\<lparr>col_n = 1, col_a = 0, col_b = 2, col_c = 1, col_x = 1, col_fx = 0\<rparr>],
       a_iter = 0, b_iter = 2\<rparr>,
      [\<lparr>col_n = 1, col_a = 0, col_b = 2, col_c = 1, col_x = 1, col_fx = 0\<rparr>])"
  by (simp add: run_eval)

subsection \<open>A zero tolerance\<close>




subsection \<open>Frame: the bounds typed by the user\<close>

text \<open>
  Claim C9. Whatever the exit (validation failure or any \<open>break\<close> of the loop), the
  variables \<open>a\<close> and \<open>b\<close> of the script hold at the end the values they were given: the loop
  assigns to \<open>a_iter\<close> and \<open>b_iter\<close> only.
\<close>

theorem inputs_never_mutated:
  "a_lim (fst (snd (run f_lambda a b tolerance maximo))) = a
   \<and> b_lim (fst (snd (run f_lambda a b tolerance maximo))) = b"
proof (cases "validate f_lambda a b")
  case (Some out)
  then show ?thesis by (simp add: run_def init_vars_def)
next
  case None
  obtain out s where res: "bisect_loop f_lambda (init_vars a b tolerance maximo) = (out, s)"
    by (cases "bisect_loop f_lambda (init_vars a b tolerance maximo)")
  have "\<exists>t. (a_lim t = a \<and> b_lim t = b) \<and> loop_body f_lambda t = Break out s"
    by (rule bisect_loop_invariant [OF res]) (auto simp: init_vars_def dest: loop_body_frame)
  then have "a_lim s = a \<and> b_lim s = b"
    by (auto dest: loop_body_Break_frame)
  with None res show ?thesis by (simp add: run_def)
qed

subsection \<open>The sign change across the bracket\<close>

text \<open>
  Claim C10 fails on the code when the left bound is itself a root. For \<open>f(x) = x\<close> on
  \<open>[0, 4]\<close> validation succeeds (\<open>f(0) * f(4) = 0\<close>); in the first pass the product
  \<open>f(a_iter) * f_x_new = 0 * 2\<close> is not negative, so \<open>a_iter\<close> becomes 2 and the second pass
  starts from the bracket \<open>[2, 4]\<close>, where \<open>f(2) * f(4) = 8 > 0\<close>. The run then walks away
  from the root and reports 15/4 as an approximate root.
\<close>

theorem root_at_left_end_loses_bracket:
  "validate f_lambda_x 0 4 = None
   \<and> f f_lambda_x 0 = Inr (Some 0) \<and> f f_lambda_x 4 = Inr (Some 4)
   \<and> loop_body f_lambda_x (init_vars 0 4 (1 / 2) 100)
       = Continue \<lparr>a_lim = 0, b_lim = 4, tol = 1 / 2, max_iter = 100, iteraciones = 1,
           rows = [\<lparr>col_n = 1, col_a = 0, col_b = 4, col_c = 2, col_x = 2, col_fx = 2\<rparr>],
           a_iter = 2, b_iter = 4\<rparr>
   \<and> f f_lambda_x 2 = Inr (Some 2) \<and> (2::real) * 4 > 0
   \<and> fst (run f_lambda_x 0 4 (1 / 2) 100) = ApproximateRoot (15 / 4) (1 / 2) 4"
  by (simp add: run_eval)

text \<open>
  What does hold: a pass that goes round again keeps the sign change as long as the value
  at the left end is not zero and the float product of line 151 has the sign of the exact
  product (no underflow).
\<close>

lemma sign_change_kept_when_left_value_nonzero:
  assumes "loop_body fl t = Continue t'"
    and "f fl (a_iter t) = Inr (Some va)" and "f fl (b_iter t) = Inr (Some vb)"
    and "va \<noteq> 0" and "va * vb \<le> 0"
    and "\<And>v. f fl (a_iter t + (b_iter t - a_iter t) / 2) = Inr (Some v)
            \<Longrightarrow> (double_mul va v < 0) = (va * v < 0)"
  shows "\<exists>va' vb'. f fl (a_iter t') = Inr (Some va') \<and> f fl (b_iter t') = Inr (Some vb')
           \<and> va' \<noteq> 0 \<and> va' * vb' \<le> 0"
  using assms
  by (auto simp: loop_body_def select_bracket_def Let_def mult_le_0_iff mult_less_0_iff
           split: sum.splits option.splits if_splits)

end
